theory Spec2Isabelle
  imports Complex_Main "HOL-Library.Word"
begin

unbundle bit_operations_syntax

section \<open>MediClin: the insight generator\<close>

text \<open>
  The module \<^verbatim>\<open>mediclin.py\<close> holds an engine class \<^verbatim>\<open>MedicalIntelligence\<close> with two
  methods and three database functions over a SQLite file. Python dictionaries with a
  fixed set of keys are records here; a key that a caller may leave out is an
  \<open>option\<close> field, read with the default that \<^verbatim>\<open>dict.get\<close> is given. Values carry the
  types of the schema and of the form widgets: the age is an integer, the gender and the
  history are strings, a confidence is a Python float, idealised as a real number.
\<close>

subsection \<open>Data\<close>

record patient_data =
  age :: "int option"
  gender :: "string option"
  medical_history :: "string option"

record prediction =
  condition :: string
  confidence :: real
  risk_level :: string

record insight_entry =
  type :: string
  insight :: string
  confidence :: real
  recommendations :: "string list"

record medical_intelligence =
  conditions :: "string list"

definition MedicalIntelligence_init :: medical_intelligence where
  "MedicalIntelligence_init =
     \<lparr>conditions = [''Hypertension'', ''Diabetes Type 2'', ''Cardiovascular Disease'',
                    ''Respiratory Issues'', ''Neurological Conditions'',
                    ''Metabolic Disorders'']\<rparr>"

text \<open>\<^verbatim>\<open>d.get(key, default)\<close> on an optional field.\<close>

definition dict_get :: "'a option \<Rightarrow> 'a \<Rightarrow> 'a" where
  "dict_get field dflt = (case field of None \<Rightarrow> dflt | Some v \<Rightarrow> v)"

subsection \<open>\<^verbatim>\<open>analyze_patient\<close>\<close>

definition risk_assessment_insight :: insight_entry where
  "risk_assessment_insight =
     \<lparr>type = ''Risk Assessment'',
      insight = ''Elevated risk profile due to advanced age'',
      confidence = 0.85,
      recommendations = [''Regular cardiovascular screening'', ''Bone density assessment'']\<rparr>"

definition cardiovascular_insight :: insight_entry where
  "cardiovascular_insight =
     \<lparr>type = ''Cardiovascular Intelligence'',
      insight = ''Increased cardiovascular risk profile'',
      confidence = 0.78,
      recommendations = [''Annual ECG'', ''Lipid profile monitoring'']\<rparr>"

definition preventive_insight :: insight_entry where
  "preventive_insight =
     \<lparr>type = ''Preventive Intelligence'',
      insight = ''Recommend comprehensive health assessment'',
      confidence = 0.90,
      recommendations = [''Annual physical exam'', ''Laboratory screening'']\<rparr>"

text \<open>
  The method starts from the empty list and appends one entry per rule that fires, in
  the order of the source: the age rule, the gender rule, then the unconditional entry.
\<close>

definition analyze_patient :: "medical_intelligence \<Rightarrow> patient_data \<Rightarrow> insight_entry list" where
  "analyze_patient self pd =
     (let insights0 = [];
          a = dict_get (age pd) 50;
          g = dict_get (gender pd) ''Unknown'';
          insights1 = (if a > 65 then insights0 @ [risk_assessment_insight] else insights0);
          insights2 = (if g = ''Male'' \<and> a > 45 then insights1 @ [cardiovascular_insight]
                       else insights1)
      in insights2 @ [preventive_insight])"

subsection \<open>\<^verbatim>\<open>predict_conditions\<close>\<close>

text \<open>
  The generator of the \<^verbatim>\<open>random\<close> module is a state: the stream of the values that
  \<^verbatim>\<open>random.random()\<close> will return, each in \<open>[0, 1)\<close>. \<^verbatim>\<open>random.uniform(a, b)\<close> is
  \<^verbatim>\<open>a + (b - a) * self.random()\<close>; it consumes one value.
\<close>

type_synonym rng = "nat \<Rightarrow> real"

definition random_uniform :: "real \<Rightarrow> real \<Rightarrow> rng \<Rightarrow> real \<times> rng" where
  "random_uniform a b g = (a + (b - a) * g 0, \<lambda>n. g (Suc n))"

definition risk_level_of :: "real \<Rightarrow> string" where
  "risk_level_of c = (if c > 0.7 then ''High'' else if c > 0.4 then ''Medium'' else ''Low'')"

text \<open>The body of the \<^verbatim>\<open>for condition in self.conditions\<close> loop, and the loop.\<close>

fun predict_loop :: "string list \<Rightarrow> prediction list \<Rightarrow> rng \<Rightarrow> prediction list \<times> rng" where
  "predict_loop [] predictions g = (predictions, g)"
| "predict_loop (c # cs) predictions g =
     (case random_uniform 0.1 0.9 g of
        (conf, g') \<Rightarrow>
          predict_loop cs
            (predictions @
               [\<lparr>condition = c, prediction.confidence = conf,
                 risk_level = risk_level_of conf\<rparr>]) g')"

text \<open>
  \<^verbatim>\<open>sorted(xs, key=f, reverse=True)\<close>: CPython reverses the list, sorts it stably in
  ascending order of the key, and reverses the result, so that equal keys keep their
  original order.
\<close>

definition sorted_reverse :: "('a \<Rightarrow> 'k::linorder) \<Rightarrow> 'a list \<Rightarrow> 'a list" where
  "sorted_reverse f xs = rev (sort_key f (rev xs))"

definition predict_conditions ::
  "medical_intelligence \<Rightarrow> patient_data \<Rightarrow> rng \<Rightarrow> prediction list \<times> rng" where
  "predict_conditions self pd g =
     (case predict_loop (conditions self) [] g of
        (predictions, g') \<Rightarrow> (take 4 (sorted_reverse prediction.confidence predictions), g'))"

text \<open>
  What every entry of the result has to satisfy: a confidence in \<open>[0.1, 0.9)\<close> and the
  label that the thresholds give to it.
\<close>

definition prediction_ok :: "prediction \<Rightarrow> bool" where
  "prediction_ok p =
     (0.1 \<le> prediction.confidence p \<and> prediction.confidence p < 0.9 \<and>
      risk_level p =
        (if prediction.confidence p > 0.7 then ''High''
         else if prediction.confidence p > 0.4 then ''Medium'' else ''Low''))"

section \<open>The record store\<close>

subsection \<open>Identifiers\<close>

text \<open>
  A \<^verbatim>\<open>uuid.UUID\<close> is its 128-bit integer. \<^verbatim>\<open>str\<close> of it formats the integer with
  \<^verbatim>\<open>'%032x'\<close> and inserts hyphens after 8, 12, 16 and 20 digits.
\<close>

type_synonym uuid = "128 word"

definition hex_digit :: "nat \<Rightarrow> char" where
  "hex_digit d = ''0123456789abcdef'' ! d"

text \<open>\<open>hex_digits k n\<close>: the \<open>k\<close> low-order hexadecimal digits of \<open>n\<close>, the highest first.\<close>

fun hex_digits :: "nat \<Rightarrow> nat \<Rightarrow> string" where
  "hex_digits 0 n = []"
| "hex_digits (Suc k) n = hex_digits k (n div 16) @ [hex_digit (n mod 16)]"

definition uuid_str :: "uuid \<Rightarrow> string" where
  "uuid_str u =
     (let hex = hex_digits 32 (unat u)
      in take 8 hex @ ''-'' @ take 4 (drop 8 hex) @ ''-'' @ take 4 (drop 12 hex) @ ''-''
           @ take 4 (drop 16 hex) @ ''-'' @ drop 20 hex)"

text \<open>\<^verbatim>\<open>str.upper\<close> on the ASCII range, which is all an identifier holds.\<close>

definition upper_char :: "char \<Rightarrow> char" where
  "upper_char c =
     (let n = (of_char c :: nat) in if 97 \<le> n \<and> n \<le> 122 then char_of (n - 32) else c)"

definition upper :: "string \<Rightarrow> string" where
  "upper s = map upper_char s"

text \<open>The f-string \<^verbatim>\<open>f"MI-{str(uuid.uuid4())[:8].upper()}"\<close>, given the UUID drawn.\<close>

definition new_patient_id :: "uuid \<Rightarrow> string" where
  "new_patient_id u = ''MI-'' @ upper (take 8 (uuid_str u))"

text \<open>\<^verbatim>\<open>str.isalnum\<close> on one ASCII character, and the pattern of an identifier.\<close>

definition is_alnum :: "char \<Rightarrow> bool" where
  "is_alnum c =
     (let n = (of_char c :: nat)
      in (48 \<le> n \<and> n \<le> 57) \<or> (65 \<le> n \<and> n \<le> 90) \<or> (97 \<le> n \<and> n \<le> 122))"

definition matches_id_pattern :: "string \<Rightarrow> bool" where
  "matches_id_pattern s =
     (take 3 s = ''MI-'' \<and> length (drop 3 s) = 8 \<and> list_all is_alnum (drop 3 s))"

subsection \<open>Tables\<close>

text \<open>
  The database file holds three tables. A row is the tuple that \<^verbatim>\<open>fetchall\<close> returns,
  in the order of the columns of \<^verbatim>\<open>init_database\<close>; a table is the list of its rows in
  order of insertion (the order of the row identifiers), with the counter that
  \<^verbatim>\<open>AUTOINCREMENT\<close> keeps. The counter is a natural number: its limit of \<open>2\<^sup>6\<^sup>3 - 1\<close> is
  out of reach of a file that this program fills one row at a time.
  \<^verbatim>\<open>CURRENT_TIMESTAMP\<close> has a resolution of one second: a creation time is a number of
  seconds, which the caller of the model supplies.
\<close>

type_synonym patient_row = "nat \<times> string \<times> string \<times> int \<times> string \<times> string \<times> nat"
  \<comment> \<open>id, patient_id, name, age, gender, medical_history, created_at\<close>

type_synonym medical_data_row = "nat \<times> string \<times> string \<times> string \<times> real \<times> nat"
  \<comment> \<open>id, patient_id, data_type, data_value, confidence_score, timestamp\<close>

type_synonym insight_row = "nat \<times> string \<times> string \<times> string \<times> real \<times> nat"
  \<comment> \<open>id, patient_id, insight_type, insight_text, confidence, created_at\<close>

record database =
  patients :: "patient_row list"
  patients_seq :: nat
  medical_data :: "medical_data_row list"
  medical_data_seq :: nat
  intelligence_insights :: "insight_row list"
  intelligence_insights_seq :: nat

datatype db_error = IntegrityError | OverflowError

definition row_patient_id :: "patient_row \<Rightarrow> string" where
  "row_patient_id r = (case r of (i, pid, nm, a, g, mh, t) \<Rightarrow> pid)"

definition row_created_at :: "patient_row \<Rightarrow> nat" where
  "row_created_at r = (case r of (i, pid, nm, a, g, mh, t) \<Rightarrow> t)"

definition row_values :: "patient_row \<Rightarrow> string \<times> int \<times> string \<times> string" where
  "row_values r = (case r of (i, pid, nm, a, g, mh, t) \<Rightarrow> (nm, a, g, mh))"

definition insight_row_confidence :: "insight_row \<Rightarrow> real" where
  "insight_row_confidence r = (case r of (i, pid, ty, txt, c, t) \<Rightarrow> c)"

text \<open>
  \<^verbatim>\<open>init_database\<close>: every table is created only if it does not exist, so an existing
  file is left as it is and a missing one becomes three empty tables.
\<close>

definition empty_database :: database where
  "empty_database =
     \<lparr>patients = [], patients_seq = 0, medical_data = [], medical_data_seq = 0,
      intelligence_insights = [], intelligence_insights_seq = 0\<rparr>"

definition init_database :: "database option \<Rightarrow> database" where
  "init_database file = (case file of None \<Rightarrow> empty_database | Some db \<Rightarrow> db)"

subsection \<open>Operations\<close>

text \<open>
  An operation that may raise gives its outcome, the exception (\<open>Inl\<close>) or the value
  returned (\<open>Inr\<close>), together with the database it leaves behind.

  \<^verbatim>\<open>add_patient\<close> draws a UUID, builds the identifier and inserts one row. Both
  exceptions come out of \<^verbatim>\<open>cursor.execute\<close>, before the commit, so that the tables keep
  their rows; the function has no handler and does not draw again.
  \<^item> The age is a Python integer of any size and SQLite stores signed 64-bit integers:
    binding an age outside that range raises \<^verbatim>\<open>OverflowError\<close>, before the statement
    runs.
  \<^item> The column \<^verbatim>\<open>patient_id\<close> is \<^verbatim>\<open>UNIQUE\<close>: inserting an identifier that the table
    already holds raises \<^verbatim>\<open>sqlite3.IntegrityError\<close>.

  \<open>u\<close> is the UUID that \<^verbatim>\<open>uuid.uuid4()\<close> returns and \<open>now\<close> the second of the insertion.
  The name, the gender and the history are strings and the age is an integer, as the
  form supplies them.
\<close>

definition fits_int64 :: "int \<Rightarrow> bool" where
  "fits_int64 i = (- (2 ^ 63) \<le> i \<and> i < 2 ^ 63)"

definition add_patient ::
  "uuid \<Rightarrow> nat \<Rightarrow> string \<Rightarrow> int \<Rightarrow> string \<Rightarrow> string \<Rightarrow> database
     \<Rightarrow> (db_error + string) \<times> database" where
  "add_patient u now name a g mh db =
     (let patient_id = new_patient_id u
      in if \<not> fits_int64 a then (Inl OverflowError, db)
         else if patient_id \<in> set (map row_patient_id (patients db))
         then (Inl IntegrityError, db)
         else (Inr patient_id,
               db\<lparr>patients := patients db @
                                [(patients_seq db + 1, patient_id, name, a, g, mh, now)],
                  patients_seq := patients_seq db + 1\<rparr>))"

text \<open>
  \<^verbatim>\<open>SELECT * FROM patients ORDER BY created_at DESC\<close>: the rows by falling creation
  time. SQLite scans the table in order of insertion and its sorter is stable, so rows of
  the same second come out oldest first.
\<close>

definition order_by_desc :: "('a \<Rightarrow> 'k::linorder) \<Rightarrow> 'a list \<Rightarrow> 'a list" where
  "order_by_desc f rows = rev (sort_key f (rev rows))"

definition get_all_patients :: "database \<Rightarrow> patient_row list" where
  "get_all_patients db = order_by_desc row_created_at (patients db)"

text \<open>\<^verbatim>\<open>save_intelligence_insight\<close>: one row more; the table has no constraint.\<close>

definition save_intelligence_insight ::
  "nat \<Rightarrow> string \<Rightarrow> string \<Rightarrow> string \<Rightarrow> real \<Rightarrow> database \<Rightarrow> database" where
  "save_intelligence_insight now patient_id insight_type insight_text c db =
     db\<lparr>intelligence_insights := intelligence_insights db @
          [(intelligence_insights_seq db + 1, patient_id, insight_type, insight_text, c, now)],
        intelligence_insights_seq := intelligence_insights_seq db + 1\<rparr>"

text \<open>A direct read of the table: \<^verbatim>\<open>SELECT * FROM intelligence_insights\<close>.\<close>

definition read_insights :: "database \<Rightarrow> insight_row list" where
  "read_insights db = intelligence_insights db"

section \<open>The patient form\<close>

text \<open>
  The submit branch of \<^verbatim>\<open>patient_analysis_page\<close>. The widgets give a name (a string,
  empty when nothing was typed), an age (an integer), a gender and a history. Under
  \<^verbatim>\<open>if name:\<close> the page adds the patient, analyses the submitted values and saves every
  insight of the analysis; what it writes to the screen changes no state and is left
  out. An exception of \<^verbatim>\<open>add_patient\<close> ends the branch. \<open>clock k\<close> is the second at which
  the \<open>k\<close>-th statement of the branch runs.
\<close>

fun save_insights :: "string \<Rightarrow> insight_entry list \<Rightarrow> (nat \<Rightarrow> nat) \<Rightarrow> nat \<Rightarrow> database \<Rightarrow> database" where
  "save_insights patient_id [] clock k db = db"
| "save_insights patient_id (i # insights) clock k db =
     save_insights patient_id insights clock (Suc k)
       (save_intelligence_insight (clock k) patient_id (type i) (insight i) (confidence i) db)"

definition patient_form_submit ::
  "medical_intelligence \<Rightarrow> uuid \<Rightarrow> (nat \<Rightarrow> nat) \<Rightarrow> bool \<Rightarrow> string \<Rightarrow> int \<Rightarrow> string \<Rightarrow> string
     \<Rightarrow> database \<Rightarrow> (db_error + unit) \<times> database" where
  "patient_form_submit medical_ai u clock submitted name a g mh db =
     (if submitted then
        (if name \<noteq> [] then
           (case add_patient u (clock 0) name a g mh db of
              (Inl e, db1) \<Rightarrow> (Inl e, db1)
            | (Inr patient_id, db1) \<Rightarrow>
                (let pd = \<lparr>age = Some a, gender = Some g, medical_history = Some mh\<rparr>;
                     insights = analyze_patient medical_ai pd
                 in (Inr (), save_insights patient_id insights clock 1 db1)))
         else (Inr (), db))
      else (Inr (), db))"

section \<open>Properties of the insight generator\<close>

subsection \<open>The rules of \<^verbatim>\<open>analyze_patient\<close>\<close>

text \<open>
  In the statements below the age and the gender of a patient are the values that the
  method works with: the field when the dictionary has it, the default of \<^verbatim>\<open>get\<close>
  otherwise.
\<close>

text \<open>
  Claim C2. The result holds exactly one ``Cardiovascular Intelligence'' insight, of
  confidence 0.78, if the gender is \<^verbatim>\<open>"Male"\<close> and the age is above 45, and no such
  insight for any other gender and age.
\<close>

theorem analyze_patient_cardiovascular:
  "map confidence (filter (\<lambda>i. type i = ''Cardiovascular Intelligence'') (analyze_patient self pd)) =
     (if dict_get (gender pd) ''Unknown'' = ''Male'' \<and> dict_get (age pd) 50 > 45
      then [0.78] else [])"
  by (simp add: analyze_patient_def Let_def risk_assessment_insight_def cardiovascular_insight_def
        preventive_insight_def)

text \<open>The rule at both sides of its age threshold and for another gender.\<close>

theorem analyze_patient_cardiovascular_witness:
  "map confidence (filter (\<lambda>i. type i = ''Cardiovascular Intelligence'')
     (analyze_patient MedicalIntelligence_init
        \<lparr>age = Some 46, gender = Some ''Male'', medical_history = Some ''none''\<rparr>)) = [0.78]
   \<and> map confidence (filter (\<lambda>i. type i = ''Cardiovascular Intelligence'')
     (analyze_patient MedicalIntelligence_init
        \<lparr>age = Some 45, gender = Some ''Male'', medical_history = Some ''none''\<rparr>)) = []
   \<and> map confidence (filter (\<lambda>i. type i = ''Cardiovascular Intelligence'')
     (analyze_patient MedicalIntelligence_init
        \<lparr>age = Some 70, gender = Some ''Female'', medical_history = Some ''none''\<rparr>)) = []"
  using analyze_patient_cardiovascular [of MedicalIntelligence_init
          "\<lparr>age = Some 46, gender = Some ''Male'', medical_history = Some ''none''\<rparr>"]
        analyze_patient_cardiovascular [of MedicalIntelligence_init
          "\<lparr>age = Some 45, gender = Some ''Male'', medical_history = Some ''none''\<rparr>"]
        analyze_patient_cardiovascular [of MedicalIntelligence_init
          "\<lparr>age = Some 70, gender = Some ''Female'', medical_history = Some ''none''\<rparr>"]
  by (simp add: dict_get_def)

text \<open>
  Claim C3. The result holds exactly one ``Risk Assessment'' insight, of confidence
  0.85, if the age is above 65, and none otherwise.
\<close>

theorem analyze_patient_risk_assessment:
  "map confidence (filter (\<lambda>i. type i = ''Risk Assessment'') (analyze_patient self pd)) =
     (if dict_get (age pd) 50 > 65 then [0.85] else [])"
  by (simp add: analyze_patient_def Let_def risk_assessment_insight_def cardiovascular_insight_def
        preventive_insight_def)

text \<open>The rule at both sides of its threshold.\<close>

theorem analyze_patient_risk_assessment_witness:
  "map confidence (filter (\<lambda>i. type i = ''Risk Assessment'')
     (analyze_patient MedicalIntelligence_init
        \<lparr>age = Some 66, gender = Some ''Female'', medical_history = Some ''none''\<rparr>)) = [0.85]
   \<and> map confidence (filter (\<lambda>i. type i = ''Risk Assessment'')
     (analyze_patient MedicalIntelligence_init
        \<lparr>age = Some 65, gender = Some ''Female'', medical_history = Some ''none''\<rparr>)) = []"
  using analyze_patient_risk_assessment [of MedicalIntelligence_init
          "\<lparr>age = Some 66, gender = Some ''Female'', medical_history = Some ''none''\<rparr>"]
        analyze_patient_risk_assessment [of MedicalIntelligence_init
          "\<lparr>age = Some 65, gender = Some ''Female'', medical_history = Some ''none''\<rparr>"]
  by (simp add: dict_get_def)

text \<open>
  Claim C4. Whatever the patient, the result holds exactly one ``Preventive
  Intelligence'' insight, of confidence 0.90.
\<close>

theorem analyze_patient_preventive:
  "map confidence (filter (\<lambda>i. type i = ''Preventive Intelligence'') (analyze_patient self pd)) =
     [0.90]"
  by (simp add: analyze_patient_def Let_def risk_assessment_insight_def cardiovascular_insight_def
        preventive_insight_def)

text \<open>
  Claim C9. Two patients of the same age and gender get the same insights, whatever
  their medical histories: the method never reads the history.
\<close>

theorem analyze_patient_history_independent:
  assumes "age pd = age pd'" and "gender pd = gender pd'"
  shows "analyze_patient self pd = analyze_patient self pd'"
  using assms by (simp add: analyze_patient_def)

text \<open>Two patients who differ in their history only.\<close>

theorem analyze_patient_history_independent_witness:
  "age \<lparr>age = Some 70, gender = Some ''Male'', medical_history = Some ''none''\<rparr> =
     age \<lparr>age = Some 70, gender = Some ''Male'', medical_history = Some ''two heart attacks''\<rparr>
   \<and> gender \<lparr>age = Some 70, gender = Some ''Male'', medical_history = Some ''none''\<rparr> =
     gender \<lparr>age = Some 70, gender = Some ''Male'', medical_history = Some ''two heart attacks''\<rparr>
   \<and> analyze_patient MedicalIntelligence_init
        \<lparr>age = Some 70, gender = Some ''Male'', medical_history = Some ''none''\<rparr> =
     analyze_patient MedicalIntelligence_init
        \<lparr>age = Some 70, gender = Some ''Male'', medical_history = Some ''two heart attacks''\<rparr>"
  using analyze_patient_history_independent [of
          "\<lparr>age = Some 70, gender = Some ''Male'', medical_history = Some ''none''\<rparr>"
          "\<lparr>age = Some 70, gender = Some ''Male'', medical_history = Some ''two heart attacks''\<rparr>"
          MedicalIntelligence_init]
  by simp

text \<open>
  Claim C10. A patient without an age is analysed as one of age 50, a patient without a
  gender as one of gender \<^verbatim>\<open>"Unknown"\<close>, and for a patient without both the result is
  the ``Preventive Intelligence'' insight alone.
\<close>

theorem analyze_patient_defaults:
  "analyze_patient self (pd\<lparr>age := None\<rparr>) = analyze_patient self (pd\<lparr>age := Some 50\<rparr>)
   \<and> analyze_patient self (pd\<lparr>gender := None\<rparr>) =
       analyze_patient self (pd\<lparr>gender := Some ''Unknown''\<rparr>)
   \<and> analyze_patient self \<lparr>age = None, gender = None, medical_history = h\<rparr> =
       [preventive_insight]"
  by (simp add: analyze_patient_def Let_def dict_get_def)

subsection \<open>\<^verbatim>\<open>predict_conditions\<close>\<close>

text \<open>The descending sort keeps the elements and orders them by falling key.\<close>

lemma sorted_reverse_sorted: "sorted_wrt (\<lambda>p q. f q \<le> f p) (sorted_reverse f xs)"
proof -
  have "sorted (map f (sort_key f (rev xs)))" by (rule sorted_sort_key)
  then have "sorted_wrt (\<lambda>a b. f a \<le> f b) (sort_key f (rev xs))"
    by (simp add: sorted_map)
  then show ?thesis by (simp add: sorted_reverse_def sorted_wrt_rev)
qed

lemma sorted_reverse_set: "set (sorted_reverse f xs) = set xs"
  by (simp add: sorted_reverse_def)

lemma sorted_reverse_length: "length (sorted_reverse f xs) = length xs"
  by (simp add: sorted_reverse_def)

text \<open>
  The loop adds one prediction per condition, and each one is well formed as long as the
  generator returns values of \<open>[0, 1)\<close>. Both facts are about any list collected so far
  and any generator, as the loop changes both.
\<close>

lemma predict_loop_length:
  "length (fst (predict_loop cs ps g)) = length ps + length cs"
  by (induction cs arbitrary: ps g) (auto simp: random_uniform_def)

lemma uniform_range:
  fixes x :: real
  assumes "0 \<le> x" "x < 1"
  shows "0.1 \<le> 0.1 + (0.9 - 0.1) * x" and "0.1 + (0.9 - 0.1) * x < 0.9"
  using assms by auto

lemma predict_loop_ok:
  assumes "\<forall>n. 0 \<le> g n \<and> g n < 1" and "\<forall>p\<in>set ps. prediction_ok p"
  shows "\<forall>p\<in>set (fst (predict_loop cs ps g)). prediction_ok p"
  using assms
proof (induction cs arbitrary: ps g)
  case Nil
  then show ?case by simp
next
  case (Cons c cs)
  let ?conf = "0.1 + (0.9 - 0.1) * g 0"
  let ?p = "\<lparr>condition = c, prediction.confidence = ?conf, risk_level = risk_level_of ?conf\<rparr>"
  have g0: "0 \<le> g 0" "g 0 < 1" using Cons.prems(1) by auto
  have "prediction_ok ?p"
    unfolding prediction_ok_def using uniform_range [OF g0] by (simp add: risk_level_of_def)
  then have ps: "\<forall>p\<in>set (ps @ [?p]). prediction_ok p" using Cons.prems(2) by simp
  have g': "\<forall>n. 0 \<le> g (Suc n) \<and> g (Suc n) < 1" using Cons.prems(1) by blast
  have "\<forall>p\<in>set (fst (predict_loop cs (ps @ [?p]) (\<lambda>n. g (Suc n)))). prediction_ok p"
    by (rule Cons.IH [OF g' ps])
  then show ?case by (simp add: random_uniform_def)
qed

text \<open>
  Claim C1. For the engine that the module builds and any patient, as long as every
  value of \<^verbatim>\<open>random.random()\<close> lies in \<open>[0, 1)\<close>: \<^verbatim>\<open>predict_conditions\<close> returns exactly
  4 predictions, each with a confidence in \<open>[0.1, 0.9)\<close> and the risk label of the
  thresholds (above 0.7 \<^verbatim>\<open>High\<close>, above 0.4 \<^verbatim>\<open>Medium\<close>, else \<^verbatim>\<open>Low\<close>), in descending
  order of confidence.
\<close>

theorem predict_conditions_result:
  assumes "\<forall>n. 0 \<le> g n \<and> g n < 1"
  shows "length (fst (predict_conditions MedicalIntelligence_init pd g)) = 4
       \<and> (\<forall>p\<in>set (fst (predict_conditions MedicalIntelligence_init pd g)).
            0.1 \<le> prediction.confidence p \<and> prediction.confidence p < 0.9 \<and>
            risk_level p =
              (if prediction.confidence p > 0.7 then ''High''
               else if prediction.confidence p > 0.4 then ''Medium'' else ''Low''))
       \<and> sorted_wrt (\<lambda>p q. prediction.confidence q \<le> prediction.confidence p)
            (fst (predict_conditions MedicalIntelligence_init pd g))"
proof -
  let ?cs = "conditions MedicalIntelligence_init"
  let ?ps = "fst (predict_loop ?cs [] g)"
  let ?s = "sorted_reverse prediction.confidence ?ps"
  have res: "fst (predict_conditions MedicalIntelligence_init pd g) = take 4 ?s"
    by (simp add: predict_conditions_def split: prod.splits)
  have "length ?ps = 6"
    unfolding predict_loop_length by (simp add: MedicalIntelligence_init_def)
  then have len: "length (take 4 ?s) = 4" by (simp add: sorted_reverse_length)
  have "\<forall>p\<in>set ?ps. prediction_ok p"
    by (rule predict_loop_ok [OF assms]) simp
  then have "\<forall>p\<in>set ?s. prediction_ok p" by (simp add: sorted_reverse_set)
  then have ok: "\<forall>p\<in>set (take 4 ?s). prediction_ok p"
    by (meson in_set_takeD)
  have "sorted_wrt (\<lambda>p q. prediction.confidence q \<le> prediction.confidence p) ?s"
    by (rule sorted_reverse_sorted)
  then have srt: "sorted_wrt (\<lambda>p q. prediction.confidence q \<le> prediction.confidence p) (take 4 ?s)"
    by (rule sorted_wrt_take)
  from len ok srt show ?thesis unfolding res prediction_ok_def by blast
qed

text \<open>
  A generator whose first six values are 1/4, 7/8, 1/2, 0, 3/4 and 1/8, and the result
  it leads to: the confidence 0.7 is not above 0.7 and is labelled \<^verbatim>\<open>Medium\<close>.
\<close>

theorem predict_conditions_result_witness:
  "(\<forall>n. 0 \<le> (\<lambda>n::nat. if n = 0 then 1/4 else if n = 1 then 7/8 else if n = 2 then 1/2
                     else if n = 3 then 0 else if n = 4 then 3/4 else (1/8::real)) n
       \<and> (\<lambda>n::nat. if n = 0 then 1/4 else if n = 1 then 7/8 else if n = 2 then 1/2
                     else if n = 3 then 0 else if n = 4 then 3/4 else (1/8::real)) n < 1)
   \<and> length (fst (predict_conditions MedicalIntelligence_init
        \<lparr>age = Some 70, gender = Some ''Female'', medical_history = Some ''none''\<rparr>
        (\<lambda>n. if n = 0 then 1/4 else if n = 1 then 7/8 else if n = 2 then 1/2
              else if n = 3 then 0 else if n = 4 then 3/4 else 1/8))) = 4"
proof -
  let ?g = "\<lambda>n::nat. if n = 0 then 1/4 else if n = 1 then 7/8 else if n = 2 then 1/2
                     else if n = 3 then 0 else if n = 4 then 3/4 else (1/8::real)"
  have h: "\<forall>n. 0 \<le> ?g n \<and> ?g n < 1" by simp
  from predict_conditions_result [OF h] h show ?thesis by blast
qed

lemma predict_conditions_example:
  "fst (predict_conditions MedicalIntelligence_init
        \<lparr>age = Some 70, gender = Some ''Female'', medical_history = Some ''none''\<rparr>
        (\<lambda>n. if n = 0 then 1/4 else if n = 1 then 7/8 else if n = 2 then 1/2
              else if n = 3 then 0 else if n = 4 then 3/4 else 1/8)) =
     [\<lparr>condition = ''Diabetes Type 2'', prediction.confidence = 8/10, risk_level = ''High''\<rparr>,
      \<lparr>condition = ''Neurological Conditions'', prediction.confidence = 7/10, risk_level = ''Medium''\<rparr>,
      \<lparr>condition = ''Cardiovascular Disease'', prediction.confidence = 5/10, risk_level = ''Medium''\<rparr>,
      \<lparr>condition = ''Hypertension'', prediction.confidence = 3/10, risk_level = ''Low''\<rparr>]"
  by (simp add: predict_conditions_def MedicalIntelligence_init_def random_uniform_def
        risk_level_of_def sorted_reverse_def)

section \<open>Properties of the record store\<close>

subsection \<open>Identifiers\<close>

text \<open>
  The digits that \<open>hex_digits\<close> writes are lower-case hexadecimal digits, \<^verbatim>\<open>upper\<close> turns
  them into digits and the letters \<^verbatim>\<open>A\<close> to \<^verbatim>\<open>F\<close>, and the first eight characters of the
  string of a UUID are the first eight of its 32 digits. So every identifier has the form
  \<^verbatim>\<open>MI-\<close> and eight alphanumeric characters.
\<close>

lemma hex_digits_length: "length (hex_digits k n) = k"
  by (induction k arbitrary: n) auto

lemma hex_digit_in: "d < 16 \<Longrightarrow> hex_digit d \<in> set ''0123456789abcdef''"
  unfolding hex_digit_def by (intro nth_mem) simp

lemma hex_digits_set: "set (hex_digits k n) \<subseteq> set ''0123456789abcdef''"
proof (induction k arbitrary: n)
  case 0
  show ?case by simp
next
  case (Suc k)
  have "hex_digit (n mod 16) \<in> set ''0123456789abcdef''"
    by (rule hex_digit_in) simp
  with Suc [of "n div 16"] show ?case by simp
qed

lemma upper_char_digits: "map upper_char ''0123456789'' = ''0123456789''"
  by (simp add: upper_char_def)

lemma upper_char_letters: "map upper_char ''abcdef'' = ''ABCDEF''"
  by code_simp

lemma upper_char_hex: "c \<in> set ''0123456789abcdef'' \<Longrightarrow> upper_char c \<in> set ''0123456789ABCDEF''"
  using upper_char_digits upper_char_letters by auto

lemma is_alnum_upper_hex: "c \<in> set ''0123456789ABCDEF'' \<Longrightarrow> is_alnum c"
  by (auto simp: is_alnum_def)

lemma take8_uuid_str: "take 8 (uuid_str u) = take 8 (hex_digits 32 (unat u))"
  by (simp add: uuid_str_def Let_def hex_digits_length)

lemma new_patient_id_suffix:
  "drop 3 (new_patient_id u) = upper (take 8 (hex_digits 32 (unat u)))"
  by (simp add: new_patient_id_def take8_uuid_str)

lemma new_patient_id_upper_hex:
  "set (drop 3 (new_patient_id u)) \<subseteq> set ''0123456789ABCDEF''"
proof
  fix c assume "c \<in> set (drop 3 (new_patient_id u))"
  then obtain d where d: "d \<in> set (take 8 (hex_digits 32 (unat u)))" and c: "c = upper_char d"
    unfolding new_patient_id_suffix upper_def by auto
  from d have "d \<in> set (hex_digits 32 (unat u))" by (rule in_set_takeD)
  with hex_digits_set have "d \<in> set ''0123456789abcdef''" by blast
  with c show "c \<in> set ''0123456789ABCDEF''" by (simp only: upper_char_hex)
qed

lemma new_patient_id_pattern: "matches_id_pattern (new_patient_id u)"
proof -
  have 1: "take 3 (new_patient_id u) = ''MI-''" by (simp add: new_patient_id_def)
  have 2: "length (drop 3 (new_patient_id u)) = 8"
    unfolding new_patient_id_suffix by (simp add: upper_def hex_digits_length)
  have 3: "list_all is_alnum (drop 3 (new_patient_id u))"
    unfolding list_all_iff using new_patient_id_upper_hex is_alnum_upper_hex by blast
  from 1 2 3 show ?thesis unfolding matches_id_pattern_def by blast
qed

text \<open>
  Rules that compute \<open>hex_digits\<close> on numerals, the upper-case forms of the sixteen
  digits, and the identifiers of three UUIDs; the first and the third UUID differ, but
  not in their first eight digits.
\<close>

lemma hex_digits_numeral:
  "hex_digits (numeral k) n = hex_digits (pred_numeral k) (n div 16) @ [hex_digit (n mod 16)]"
  by (metis hex_digits.simps(2) numeral_eq_Suc)

lemma hex_digits_1: "hex_digits 1 n = [hex_digit (n mod 16)]"
  by (metis hex_digits.simps One_nat_def append_Nil)

lemma upper_char_hex_simps:
  "upper_char CHR ''0'' = CHR ''0''" "upper_char CHR ''1'' = CHR ''1''"
  "upper_char CHR ''2'' = CHR ''2''" "upper_char CHR ''3'' = CHR ''3''"
  "upper_char CHR ''4'' = CHR ''4''" "upper_char CHR ''5'' = CHR ''5''"
  "upper_char CHR ''6'' = CHR ''6''" "upper_char CHR ''7'' = CHR ''7''"
  "upper_char CHR ''8'' = CHR ''8''" "upper_char CHR ''9'' = CHR ''9''"
  "upper_char CHR ''a'' = CHR ''A''" "upper_char CHR ''b'' = CHR ''B''"
  "upper_char CHR ''c'' = CHR ''C''" "upper_char CHR ''d'' = CHR ''D''"
  "upper_char CHR ''e'' = CHR ''E''" "upper_char CHR ''f'' = CHR ''F''"
  using upper_char_digits upper_char_letters by simp_all

lemma new_patient_id_eq:
  "new_patient_id u = ''MI-'' @ upper (take 8 (hex_digits 32 (unat u)))"
  by (simp add: new_patient_id_def take8_uuid_str)

lemma new_patient_id_examples:
  "new_patient_id 0x1b9d6bcdbbfd4b2d9b5dab8dfbbd4bed = ''MI-1B9D6BCD''"
  "new_patient_id 0x9b2e4c7a58cc4372a5670e02b2c3d479 = ''MI-9B2E4C7A''"
  "new_patient_id 0x1b9d6bcd0e024372a5670e02b2c3d479 = ''MI-1B9D6BCD''"
  by (simp_all add: new_patient_id_eq hex_digits_numeral hex_digits_1 hex_digit_def upper_def
        upper_char_hex_simps)

lemma uuid_str_example:
  "uuid_str 0x1b9d6bcdbbfd4b2d9b5dab8dfbbd4bed = ''1b9d6bcd-bbfd-4b2d-9b5d-ab8dfbbd4bed''"
  by (simp add: uuid_str_def hex_digits_numeral hex_digits_1 hex_digit_def)

subsection \<open>\<^verbatim>\<open>add_patient\<close> and \<^verbatim>\<open>get_all_patients\<close>\<close>

text \<open>The three outcomes of \<^verbatim>\<open>add_patient\<close>, and what a returned value tells.\<close>

lemma add_patient_Inr:
  "fits_int64 a \<Longrightarrow> new_patient_id u \<notin> set (map row_patient_id (patients db)) \<Longrightarrow>
   add_patient u now name a g mh db =
     (Inr (new_patient_id u),
      db\<lparr>patients := patients db @ [(patients_seq db + 1, new_patient_id u, name, a, g, mh, now)],
         patients_seq := patients_seq db + 1\<rparr>)"
  by (simp add: add_patient_def Let_def)



lemma add_patient_InrD:
  assumes "add_patient u now name a g mh db = (Inr pid, db')"
  shows "pid = new_patient_id u"
    and "pid \<notin> set (map row_patient_id (patients db))"
    and "patients db' = patients db @ [(patients_seq db + 1, pid, name, a, g, mh, now)]"
    and "fits_int64 a"
  using assms by (auto simp: add_patient_def Let_def split: if_splits)

text \<open>An exception of \<^verbatim>\<open>add_patient\<close> leaves the database as it was.\<close>

lemma add_patient_InlD:
  assumes "add_patient u now name a g mh db = (Inl e, db')"
  shows "db' = db"
  using assms by (auto simp: add_patient_def Let_def split: if_splits)

text \<open>An age of \<open>2\<^sup>6\<^sup>3\<close> is one too large for the column: nothing is stored.\<close>

lemma add_patient_overflow_example:
  "add_patient 0x9b2e4c7a58cc4372a5670e02b2c3d479 1793758243 ''Jane Doe'' 9223372036854775808
       ''Female'' ''none'' empty_database = (Inl OverflowError, empty_database)"
  by (simp add: add_patient_def Let_def fits_int64_def)

text \<open>
  A row that is newer than every row of the table comes first in the descending order.
\<close>

lemma insort_key_last: "\<forall>z\<in>set zs. f z < f x \<Longrightarrow> insort_key f x zs = zs @ [x]"
  by (induction zs) auto

lemma order_by_desc_snoc:
  assumes "\<forall>r\<in>set rows. f r < f x"
  shows "order_by_desc f (rows @ [x]) = x # order_by_desc f rows"
proof -
  have "\<forall>z\<in>set (sort_key f (rev rows)). f z < f x" using assms by simp
  then have "insort_key f x (sort_key f (rev rows)) = sort_key f (rev rows) @ [x]"
    by (rule insort_key_last)
  then show ?thesis by (simp add: order_by_desc_def sort_key_simps)
qed

text \<open>
  Claim C5 as stated fails: a table may hold a patient who was added in the same second.
  John Roe and Jane Doe are added to the empty database within one second; both calls
  return, and the listing starts with John Roe, not with the patient added last.
\<close>

theorem add_patient_then_list_counterexample:
  "add_patient 0x1b9d6bcdbbfd4b2d9b5dab8dfbbd4bed 1793758243 ''John Roe'' 52 ''Male'' ''asthma''
       empty_database =
     (Inr ''MI-1B9D6BCD'',
      \<lparr>patients = [(1, ''MI-1B9D6BCD'', ''John Roe'', 52, ''Male'', ''asthma'', 1793758243)],
       patients_seq = 1, medical_data = [], medical_data_seq = 0,
       intelligence_insights = [], intelligence_insights_seq = 0\<rparr>)
   \<and> add_patient 0x9b2e4c7a58cc4372a5670e02b2c3d479 1793758243 ''Jane Doe'' 70 ''Female'' ''none''
       \<lparr>patients = [(1, ''MI-1B9D6BCD'', ''John Roe'', 52, ''Male'', ''asthma'', 1793758243)],
        patients_seq = 1, medical_data = [], medical_data_seq = 0,
        intelligence_insights = [], intelligence_insights_seq = 0\<rparr> =
     (Inr ''MI-9B2E4C7A'',
      \<lparr>patients = [(1, ''MI-1B9D6BCD'', ''John Roe'', 52, ''Male'', ''asthma'', 1793758243),
                   (2, ''MI-9B2E4C7A'', ''Jane Doe'', 70, ''Female'', ''none'', 1793758243)],
       patients_seq = 2, medical_data = [], medical_data_seq = 0,
       intelligence_insights = [], intelligence_insights_seq = 0\<rparr>)
   \<and> row_values (hd (get_all_patients
         \<lparr>patients = [(1, ''MI-1B9D6BCD'', ''John Roe'', 52, ''Male'', ''asthma'', 1793758243),
                      (2, ''MI-9B2E4C7A'', ''Jane Doe'', 70, ''Female'', ''none'', 1793758243)],
          patients_seq = 2, medical_data = [], medical_data_seq = 0,
          intelligence_insights = [], intelligence_insights_seq = 0\<rparr>)) =
       (''John Roe'', 52, ''Male'', ''asthma'')
   \<and> (''John Roe'', 52, ''Male'', ''asthma'') \<noteq> (''Jane Doe'', 70::int, ''Female'', ''none'')"
  by (simp add: add_patient_def Let_def fits_int64_def new_patient_id_examples
        empty_database_def row_patient_id_def get_all_patients_def order_by_desc_def
        row_created_at_def row_values_def)

text \<open>
  Claim C5, amended. If the identifier generated is not yet in the table and every row of
  the table was created in an earlier second than the insertion, then
  \<^verbatim>\<open>add_patient("Jane Doe", 70, "Female", "none")\<close> returns an identifier of the form
  \<^verbatim>\<open>MI-\<close> and eight alphanumeric characters, and the first row of the listing that follows
  holds the inserted name, age, gender and medical history.
\<close>

theorem add_patient_then_list:
  assumes "new_patient_id u \<notin> set (map row_patient_id (patients db))"
    and "\<forall>r\<in>set (patients db). row_created_at r < now"
  shows "case add_patient u now ''Jane Doe'' 70 ''Female'' ''none'' db of
           (Inl e, db') \<Rightarrow> False
         | (Inr pid, db') \<Rightarrow>
             matches_id_pattern pid \<and> get_all_patients db' \<noteq> [] \<and>
             row_values (hd (get_all_patients db')) = (''Jane Doe'', 70, ''Female'', ''none'')"
proof -
  let ?row = "(patients_seq db + 1, new_patient_id u, ''Jane Doe'', 70::int, ''Female'', ''none'', now)"
  have fits: "fits_int64 70" by (simp add: fits_int64_def)
  have "\<forall>r\<in>set (patients db). row_created_at r < row_created_at ?row"
    using assms(2) by (simp add: row_created_at_def)
  then have "order_by_desc row_created_at (patients db @ [?row]) =
             ?row # order_by_desc row_created_at (patients db)"
    by (rule order_by_desc_snoc)
  then show ?thesis
    by (simp add: add_patient_Inr [OF fits assms(1)] get_all_patients_def
          new_patient_id_pattern row_values_def)
qed

text \<open>The amended claim on a table that holds a patient added one minute earlier.\<close>

theorem add_patient_then_list_witness:
  "new_patient_id 0x9b2e4c7a58cc4372a5670e02b2c3d479 \<notin> set (map row_patient_id (patients
       \<lparr>patients = [(1, ''MI-1B9D6BCD'', ''John Roe'', 52, ''Male'', ''asthma'', 1793758183)],
        patients_seq = 1, medical_data = [], medical_data_seq = 0,
        intelligence_insights = [], intelligence_insights_seq = 0\<rparr>))
   \<and> list_all (\<lambda>r. row_created_at r < 1793758243) (patients
       \<lparr>patients = [(1, ''MI-1B9D6BCD'', ''John Roe'', 52, ''Male'', ''asthma'', 1793758183)],
        patients_seq = 1, medical_data = [], medical_data_seq = 0,
        intelligence_insights = [], intelligence_insights_seq = 0\<rparr>)
   \<and> (case add_patient 0x9b2e4c7a58cc4372a5670e02b2c3d479 1793758243 ''Jane Doe'' 70 ''Female''
             ''none''
             \<lparr>patients = [(1, ''MI-1B9D6BCD'', ''John Roe'', 52, ''Male'', ''asthma'', 1793758183)],
              patients_seq = 1, medical_data = [], medical_data_seq = 0,
              intelligence_insights = [], intelligence_insights_seq = 0\<rparr> of
         (Inl e, db') \<Rightarrow> False
       | (Inr pid, db') \<Rightarrow>
           matches_id_pattern pid \<and> get_all_patients db' \<noteq> [] \<and>
           row_values (hd (get_all_patients db')) = (''Jane Doe'', 70, ''Female'', ''none''))"
proof -
  let ?db = "\<lparr>patients = [(1, ''MI-1B9D6BCD'', ''John Roe'', 52, ''Male'', ''asthma'', 1793758183)],
        patients_seq = 1, medical_data = [], medical_data_seq = 0,
        intelligence_insights = [], intelligence_insights_seq = 0\<rparr>"
  have h1: "new_patient_id 0x9b2e4c7a58cc4372a5670e02b2c3d479 \<notin> set (map row_patient_id (patients ?db))"
    by (simp add: new_patient_id_examples row_patient_id_def)
  have h2: "\<forall>r\<in>set (patients ?db). row_created_at r < 1793758243"
    by (simp add: row_created_at_def)
  have h3: "list_all (\<lambda>r. row_created_at r < 1793758243) (patients ?db)"
    by (simp add: row_created_at_def)
  from add_patient_then_list [OF h1 h2] h1 h3 show ?thesis by blast
qed




subsection \<open>\<^verbatim>\<open>save_intelligence_insight\<close>\<close>

text \<open>
  Claim C7. After \<^verbatim>\<open>save_intelligence_insight\<close> with the confidence \<open>c\<close>, a read of the
  table gives the rows it held before and then the inserted row, whose confidence is
  \<open>c\<close> itself.
\<close>

theorem save_intelligence_insight_roundtrip:
  "read_insights (save_intelligence_insight now patient_id insight_type insight_text c db) =
     read_insights db @
       [(intelligence_insights_seq db + 1, patient_id, insight_type, insight_text, c, now)]
   \<and> insight_row_confidence
       (last (read_insights
          (save_intelligence_insight now patient_id insight_type insight_text c db))) = c"
  by (simp add: read_insights_def save_intelligence_insight_def insight_row_confidence_def)

section \<open>Properties of the patient form\<close>

text \<open>
  Saving insights leaves the patients alone, and stores the confidence of every insight
  as it is.
\<close>

lemma save_insights_patients:
  "patients (save_insights pid is clock k db) = patients db"
  by (induction "is" arbitrary: k db) (simp_all add: save_intelligence_insight_def)

lemma save_insights_confidences:
  "map insight_row_confidence (read_insights (save_insights pid is clock k db)) =
     map insight_row_confidence (read_insights db) @ map confidence is"
  by (induction "is" arbitrary: k db)
     (simp_all add: save_intelligence_insight_def read_insights_def insight_row_confidence_def)

text \<open>
  Claim C8. A submitted form leaves the database as it was, without an error, exactly
  when the name is empty. With a name the page calls \<^verbatim>\<open>add_patient\<close>: its error is the
  error of the page, and otherwise the table of patients has gained the row of the
  submitted values.
\<close>

theorem patient_form_submit_name_check:
  "(patient_form_submit medical_ai u clock True name a g mh db = (Inr (), db)) = (name = [])
   \<and> (if name = []
       then patient_form_submit medical_ai u clock True name a g mh db = (Inr (), db)
       else case add_patient u (clock 0) name a g mh db of
              (Inl e, db1) \<Rightarrow>
                patient_form_submit medical_ai u clock True name a g mh db = (Inl e, db1)
            | (Inr pid, db1) \<Rightarrow>
                (case patient_form_submit medical_ai u clock True name a g mh db of
                   (Inl e, db') \<Rightarrow> False
                 | (Inr ok, db') \<Rightarrow>
                     patients db' =
                       patients db @ [(patients_seq db + 1, pid, name, a, g, mh, clock 0)]))"
proof (cases "name = []")
  case True
  then show ?thesis by (simp add: patient_form_submit_def)
next
  case False
  obtain r db1 where res: "add_patient u (clock 0) name a g mh db = (r, db1)"
    by (cases "add_patient u (clock 0) name a g mh db")
  show ?thesis
  proof (cases r)
    case (Inl e)
    with False res show ?thesis by (simp add: patient_form_submit_def)
  next
    case (Inr pid)
    from res Inr have p: "patients db1 = patients db @ [(patients_seq db + 1, pid, name, a, g, mh, clock 0)]"
      by (simp add: add_patient_InrD(3))
    have "patient_form_submit medical_ai u clock True name a g mh db =
          (Inr (), save_insights pid
                 (analyze_patient medical_ai
                    \<lparr>age = Some a, gender = Some g, medical_history = Some mh\<rparr>) clock 1 db1)"
      using False res Inr by (simp add: patient_form_submit_def)
    moreover have "patients (save_insights pid
                 (analyze_patient medical_ai
                    \<lparr>age = Some a, gender = Some g, medical_history = Some mh\<rparr>) clock 1 db1) =
               patients db @ [(patients_seq db + 1, pid, name, a, g, mh, clock 0)]"
      by (simp add: save_insights_patients p)
    ultimately show ?thesis using False res Inr by auto
  qed
qed

text \<open>The form submitted without a name and with one, and the database after the second.\<close>

theorem patient_form_submit_name_check_witness:
  "patient_form_submit MedicalIntelligence_init 0x9b2e4c7a58cc4372a5670e02b2c3d479
       (\<lambda>k. 1793758243 + k) True [] 30 ''Male'' [] empty_database = (Inr (), empty_database)
   \<and> patient_form_submit MedicalIntelligence_init 0x9b2e4c7a58cc4372a5670e02b2c3d479
       (\<lambda>k. 1793758243 + k) True ''Jane Doe'' 70 ''Female'' ''none'' empty_database
     \<noteq> (Inr (), empty_database)"
  using patient_form_submit_name_check [of MedicalIntelligence_init
          "0x9b2e4c7a58cc4372a5670e02b2c3d479" "\<lambda>k. 1793758243 + k" "[]" 30 "''Male''" "[]"
          empty_database]
        patient_form_submit_name_check [of MedicalIntelligence_init
          "0x9b2e4c7a58cc4372a5670e02b2c3d479" "\<lambda>k. 1793758243 + k" "''Jane Doe''" 70
          "''Female''" "''none''" empty_database]
  by simp

lemma patient_form_submit_example:
  "patient_form_submit MedicalIntelligence_init 0x9b2e4c7a58cc4372a5670e02b2c3d479
       (\<lambda>k. 1793758243 + k) True ''Jane Doe'' 70 ''Female'' ''none'' empty_database =
     (Inr (),
      \<lparr>patients = [(1, ''MI-9B2E4C7A'', ''Jane Doe'', 70, ''Female'', ''none'', 1793758243)],
       patients_seq = 1, medical_data = [], medical_data_seq = 0,
       intelligence_insights =
         [(1, ''MI-9B2E4C7A'', ''Risk Assessment'',
           ''Elevated risk profile due to advanced age'', 0.85, 1793758244),
          (2, ''MI-9B2E4C7A'', ''Preventive Intelligence'',
           ''Recommend comprehensive health assessment'', 0.90, 1793758245)],
       intelligence_insights_seq = 2\<rparr>)"
  by (simp add: patient_form_submit_def add_patient_def Let_def fits_int64_def
        new_patient_id_examples empty_database_def analyze_patient_def dict_get_def
        risk_assessment_insight_def preventive_insight_def save_intelligence_insight_def)

end
